theory Spec2Isabelle
  imports Complex_Main
begin

section \<open>CityScout: the page controller of \<^verbatim>\<open>static/js/app.js\<close>\<close>

text \<open>
  The file holds one class, \<^verbatim>\<open>CityScout\<close>. Its formatters and its insight rules are
  pure functions of the record the analysis service returns; \<^verbatim>\<open>analyzeCity\<close> drives
  the page. The embedding below follows the class method by method.

  Numbers. A number of the response is given by the rational its decimal literal
  denotes: the literal \<^verbatim>\<open>4.05\<close> is \<open>405 / 100\<close>. The comparisons, the division before
  \<^verbatim>\<open>Math.round\<close> and the printing by number-to-string conversion,
  \<^verbatim>\<open>toLocaleString\<close> and \<^verbatim>\<open>Intl.NumberFormat\<close> are taken on that value, which is the
  shortest decimal that denotes the stored double when the literal has at most 15
  significant digits. \<^verbatim>\<open>toFixed\<close> works on the exact value of the IEEE double that
  stores the number (\<open>to_double\<close>), and there the binary rounding shows:
  \<^verbatim>\<open>(4.05).toFixed(1)\<close> is \<^verbatim>\<open>"4.0"\<close>. The negative zero, infinities and the exponent
  notation that number printing switches to from \<open>10\<^sup>2\<^sup>1\<close> on are outside the model.

  Strings. A JavaScript string is a \<^typ>\<open>string\<close>; a character stands for a code
  unit below 256.
\<close>

subsection \<open>The values a numeric field of the record can hold\<close>

text \<open>
  A property of the parsed response is a number, \<^verbatim>\<open>null\<close>, or missing, and a missing
  property reads as \<^verbatim>\<open>undefined\<close>. \<open>NaN\<close> is the result of \<^verbatim>\<open>Math.abs(undefined)\<close>.
\<close>

datatype jsval = Undefined | Null | NaN | Number rat

text \<open>Truthiness, as \<^verbatim>\<open>if (v)\<close> and \<^verbatim>\<open>!v\<close> test it: every number except zero.\<close>

fun truthy :: "jsval \<Rightarrow> bool" where
  "truthy (Number x) = (x \<noteq> 0)"
| "truthy Undefined = False"
| "truthy Null = False"
| "truthy NaN = False"

text \<open>\<^verbatim>\<open>a || b\<close>: the left operand when it is truthy, the right one otherwise.\<close>

definition js_or :: "jsval \<Rightarrow> jsval \<Rightarrow> jsval" where
  "js_or a b = (if truthy a then a else b)"

text \<open>
  The numeric conversion that the relational operators apply to an operand:
  \<^verbatim>\<open>null\<close> becomes 0, \<^verbatim>\<open>undefined\<close> becomes NaN (here \<open>None\<close>), and a comparison
  with NaN is false.
\<close>

fun ToNumber :: "jsval \<Rightarrow> rat option" where
  "ToNumber (Number x) = Some x"
| "ToNumber Null = Some 0"
| "ToNumber Undefined = None"
| "ToNumber NaN = None"

definition js_gt :: "jsval \<Rightarrow> rat \<Rightarrow> bool" where
  "js_gt v c = (case ToNumber v of None \<Rightarrow> False | Some x \<Rightarrow> x > c)"

definition js_lt :: "jsval \<Rightarrow> rat \<Rightarrow> bool" where
  "js_lt v c = (case ToNumber v of None \<Rightarrow> False | Some x \<Rightarrow> x < c)"

definition Math_abs :: "jsval \<Rightarrow> jsval" where
  "Math_abs v = (case ToNumber v of None \<Rightarrow> NaN | Some x \<Rightarrow> Number \<bar>x\<bar>)"

text \<open>\<^verbatim>\<open>Math.round\<close>: the nearest integer, a tie going up.\<close>

definition Math_round :: "rat \<Rightarrow> int" where
  "Math_round x = \<lfloor>x + 1 / 2\<rfloor>"

subsection \<open>Printing numbers\<close>

definition digit :: "nat \<Rightarrow> char" where
  "digit n = ''0123456789'' ! (n mod 10)"

fun decimal :: "nat \<Rightarrow> string" where
  "decimal n = (if n < 10 then [digit n] else decimal (n div 10) @ [digit n])"

declare decimal.simps [simp del]

text \<open>Thousands grouping with commas, on the digits from the right.\<close>

fun group_rev :: "string \<Rightarrow> string" where
  "group_rev (a # b # c # d # ds) = a # b # c # CHR '','' # group_rev (d # ds)"
| "group_rev ds = ds"

definition grouped :: "nat \<Rightarrow> string" where
  "grouped n = rev (group_rev (rev (decimal n)))"

text \<open>
  Rounding of a magnitude to the nearest integer, a tie going away from zero: the
  rounding of \<^verbatim>\<open>toFixed\<close> and the default (half-expand) of \<^verbatim>\<open>Intl.NumberFormat\<close>.
\<close>

definition round_half_up :: "rat \<Rightarrow> nat" where
  "round_half_up x = nat \<lfloor>\<bar>x\<bar> + 1 / 2\<rfloor>"

definition sign_prefix :: "bool \<Rightarrow> string" where
  "sign_prefix neg = (if neg then ''-'' else '''')"

text \<open>
  \<open>tenths_to_string k\<close> is the string that JavaScript gives the number \<^verbatim>\<open>k / 10\<close> for
  an integer \<open>k\<close> when it is concatenated with a string: the integer part, and one
  fractional digit unless that digit is zero.
\<close>

definition tenths_to_string :: "int \<Rightarrow> string" where
  "tenths_to_string k =
     (let m = nat \<bar>k\<bar> in
      sign_prefix (k < 0) @ decimal (m div 10) @
      (if m mod 10 = 0 then '''' else ''.'' @ [digit m]))"

text \<open>
  The IEEE double nearest to a rational, a tie going to the even significand: the
  value that \<^verbatim>\<open>JSON.parse\<close> stores for a decimal literal. \<open>binade y\<close> is the exponent
  \<open>e\<close> with \<open>2\<^sup>e \<le> y < 2\<^sup>e\<^sup>+\<^sup>1\<close> for a positive \<open>y\<close>; the significand has 53 bits, and
  below \<open>2\<^sup>-\<^sup>1\<^sup>0\<^sup>2\<^sup>2\<close> the spacing stays that of the subnormal numbers.
\<close>

fun bit_length :: "nat \<Rightarrow> nat" where
  "bit_length n = (if n = 0 then 0 else Suc (bit_length (n div 2)))"

declare bit_length.simps [simp del]

definition pow2 :: "int \<Rightarrow> rat" where
  "pow2 e = (if e \<ge> 0 then 2 ^ nat e else 1 / 2 ^ nat (- e))"

definition binade :: "rat \<Rightarrow> int" where
  "binade y =
     (if y \<ge> 1 then int (bit_length (nat \<lfloor>y\<rfloor>)) - 1
      else (let z = 1 / y; k = (if of_int \<lfloor>z\<rfloor> = z then \<lfloor>z\<rfloor> - 1 else \<lfloor>z\<rfloor>)
            in - int (bit_length (nat k))))"

definition round_half_even :: "rat \<Rightarrow> int" where
  "round_half_even r =
     (let f = \<lfloor>r\<rfloor>; d = r - of_int f in
      if d < 1 / 2 then f else if d > 1 / 2 then f + 1
      else if even f then f else f + 1)"

definition to_double :: "rat \<Rightarrow> rat" where
  "to_double x =
     (if x = 0 then 0
      else (let e = max (binade \<bar>x\<bar>) (- 1022); ulp = pow2 (e - 52) in
            sgn x * of_int (round_half_even (\<bar>x\<bar> / ulp)) * ulp))"

text \<open>
  \<^verbatim>\<open>x.toFixed(1)\<close>: the tenth nearest to the stored double, a tie going away from zero,
  printed with exactly one fractional digit and with the sign of the double. This is
  the plain notation that \<^verbatim>\<open>toFixed\<close> uses for magnitudes below \<open>10\<^sup>2\<^sup>1\<close>.
\<close>

definition toFixed1 :: "rat \<Rightarrow> string" where
  "toFixed1 x =
     (let y = to_double x; n = round_half_up (y * 10) in
      sign_prefix (y < 0) @ decimal (n div 10) @ ''.'' @ [digit n])"

text \<open>
  \<^verbatim>\<open>new Intl.NumberFormat('en-US', {style: 'currency', currency: 'USD',
  maximumFractionDigits: 0}).format(x)\<close>: no fractional digits, grouped, the dollar
  sign after the minus sign.
\<close>

definition format_USD :: "rat \<Rightarrow> string" where
  "format_USD x = sign_prefix (x < 0) @ ''$'' @ grouped (round_half_up x)"

text \<open>
  \<^verbatim>\<open>x.toLocaleString()\<close> in the locale \<^verbatim>\<open>en-US\<close>: grouped, at most three fractional
  digits, trailing zeros dropped.
\<close>

definition fraction3 :: "nat \<Rightarrow> string" where
  "fraction3 f =
     (if f mod 1000 = 0 then ''''
      else if f mod 100 = 0 then ''.'' @ [digit (f div 100)]
      else if f mod 10 = 0 then ''.'' @ [digit (f div 100), digit (f div 10)]
      else ''.'' @ [digit (f div 100), digit (f div 10), digit f])"

definition toLocaleString_en_US :: "rat \<Rightarrow> string" where
  "toLocaleString_en_US x =
     (let n = round_half_up (x * 1000) in
      sign_prefix (x < 0) @ grouped (n div 1000) @ fraction3 (n mod 1000))"

subsection \<open>The record and the response of the analysis service\<close>

text \<open>
  The payload of a successful response. \<^verbatim>\<open>city\<close> and \<^verbatim>\<open>state\<close> are strings; each
  numeric property is a \<^typ>\<open>jsval\<close>, \<^const>\<open>Undefined\<close> when the property is missing.
\<close>

record AnalysisRecord =
  city :: string
  state :: string
  total_population :: jsval
  population :: jsval
  population_growth_5yr :: jsval
  median_household_income :: jsval
  unemployment_rate :: jsval

text \<open>
  The parsed body \<^verbatim>\<open>{success, data, error}\<close>: \<open>success\<close> is the truthiness of
  \<^verbatim>\<open>data.success\<close>, and \<open>data\<close> and \<open>error\<close> are \<open>None\<close> when the property is
  missing or \<^verbatim>\<open>null\<close>.
\<close>

record response =
  success :: bool
  data :: "AnalysisRecord option"
  error :: "string option"

text \<open>
  What \<^verbatim>\<open>await fetch(...)\<close> followed by \<^verbatim>\<open>await response.json()\<close> comes to:
  \<open>Rejected\<close> when either promise rejects (no connection, a body that is not JSON),
  \<open>Resolved r\<close> with the parsed body otherwise.
\<close>

datatype outcome = Rejected | Resolved response

subsection \<open>What the browser provides\<close>

text \<open>
  \<^verbatim>\<open>num.toLocaleString()\<close> and \<^verbatim>\<open>new Date().toLocaleDateString()\<close> depend on the
  browser's locale and clock, and \<^verbatim>\<open>fetch\<close> on the network and the service. They
  are parameters of the model; the request is the pair \<^verbatim>\<open>{city, state}\<close> of the body.
\<close>

record host =
  toLocaleString :: "rat \<Rightarrow> string"
  toLocaleDateString :: string
  fetch :: "string \<times> string \<Rightarrow> outcome"

text \<open>
  A browser in the locale \<^verbatim>\<open>en-US\<close>, on the first of November 2026, in front of a
  given service.
\<close>

definition browser_en_US :: "(string \<times> string \<Rightarrow> outcome) \<Rightarrow> host" where
  "browser_en_US service =
     \<lparr>toLocaleString = toLocaleString_en_US, toLocaleDateString = ''11/1/2026'',
      fetch = service\<rparr>"

definition offline :: host where
  "offline = browser_en_US (\<lambda>request. Rejected)"

subsection \<open>The formatters\<close>

text \<open>
  \<^verbatim>\<open>formatNumber(num)\<close>, lines 166 to 174. The guard \<^verbatim>\<open>!num\<close> holds for
  \<^verbatim>\<open>undefined\<close>, \<^verbatim>\<open>null\<close>, NaN and the number 0; past it, \<^verbatim>\<open>num\<close> is a number
  other than 0.
\<close>

fun formatNumber :: "host \<Rightarrow> jsval \<Rightarrow> string" where
  "formatNumber h (Number x) =
     (if x = 0 then ''N/A''
      else if x \<ge> 1000000 then tenths_to_string (Math_round (x / 100000)) @ ''M''
      else if x \<ge> 1000 then tenths_to_string (Math_round (x / 100)) @ ''K''
      else toLocaleString h x)"
| "formatNumber h Undefined = ''N/A''"
| "formatNumber h Null = ''N/A''"
| "formatNumber h NaN = ''N/A''"

text \<open>\<^verbatim>\<open>formatCurrency(amount)\<close>, lines 176 to 183, with the same guard.\<close>

fun formatCurrency :: "jsval \<Rightarrow> string" where
  "formatCurrency (Number x) = (if x = 0 then ''N/A'' else format_USD x)"
| "formatCurrency Undefined = ''N/A''"
| "formatCurrency Null = ''N/A''"
| "formatCurrency NaN = ''N/A''"

text \<open>
  \<^verbatim>\<open>formatPercentage(value)\<close>, lines 185 to 188. The guard is a test for
  \<^verbatim>\<open>undefined\<close> and \<^verbatim>\<open>null\<close> only. \<^verbatim>\<open>NaN.toFixed(1)\<close> is \<^verbatim>\<open>"NaN"\<close>.
\<close>

fun formatPercentage :: "jsval \<Rightarrow> string" where
  "formatPercentage Undefined = ''N/A''"
| "formatPercentage Null = ''N/A''"
| "formatPercentage (Number x) = toFixed1 x @ ''%''"
| "formatPercentage NaN = ''NaN%''"

subsection \<open>The insight rules\<close>

text \<open>
  \<^verbatim>\<open>generateInsights(data)\<close>, lines 88 to 164. The array \<^verbatim>\<open>insights\<close> is threaded
  through the four blocks of the method; \<^verbatim>\<open>insights.push(s)\<close> appends \<open>s\<close>.
\<close>

text \<open>Lines 92 to 104, \<^verbatim>\<open>// Population insights\<close>.\<close>

definition population_insights :: "host \<Rightarrow> AnalysisRecord \<Rightarrow> string list \<Rightarrow> string list" where
  "population_insights h d insights =
     (if truthy (js_or (total_population d) (population d)) then
        (let pop = js_or (total_population d) (population d) in
         if js_gt pop 1000000 then
           insights @ [city d @ '' is a major metropolitan area with '' @
                       formatNumber h pop @ '' residents.'']
         else if js_gt pop 500000 then
           insights @ [city d @ '' is a substantial city with '' @
                       formatNumber h pop @ '' residents.'']
         else if js_gt pop 100000 then
           insights @ [city d @ '' is a mid-size city with '' @
                       formatNumber h pop @ '' residents.'']
         else
           insights @ [city d @ '' is a smaller city with '' @
                       formatNumber h pop @ '' residents.''])
      else insights)"

text \<open>Lines 106 to 120, \<^verbatim>\<open>// Growth insights\<close>.\<close>

definition growth_insights :: "AnalysisRecord \<Rightarrow> string list \<Rightarrow> string list" where
  "growth_insights d insights =
     (if population_growth_5yr d \<noteq> Undefined then
        (let growth = population_growth_5yr d in
         if js_gt growth 10 then
           insights @ [''Rapid population growth of '' @ formatPercentage growth @
                       '' over the past 5 years.'']
         else if js_gt growth 5 then
           insights @ [''Strong population growth of '' @ formatPercentage growth @
                       '' over the past 5 years.'']
         else if js_gt growth 0 then
           insights @ [''Moderate population growth of '' @ formatPercentage growth @
                       '' over the past 5 years.'']
         else if js_lt growth 0 then
           insights @ [''Population decline of '' @ formatPercentage (Math_abs growth) @
                       '' over the past 5 years.'']
         else
           insights @ [''Population has remained stable over the past 5 years.''])
      else insights)"

text \<open>Lines 122 to 136, \<^verbatim>\<open>// Income insights\<close>.\<close>

definition nationalMedian :: rat where
  "nationalMedian = 70000"

definition income_insights :: "AnalysisRecord \<Rightarrow> string list \<Rightarrow> string list" where
  "income_insights d insights =
     (if truthy (median_household_income d) then
        (let income = median_household_income d in
         if js_gt income (nationalMedian * (13 / 10)) then
           insights @ [''Median household income of '' @ formatCurrency income @
                       '' is significantly above national average.'']
         else if js_gt income (nationalMedian * (11 / 10)) then
           insights @ [''Median household income of '' @ formatCurrency income @
                       '' is above national average.'']
         else if js_lt income (nationalMedian * (8 / 10)) then
           insights @ [''Median household income of '' @ formatCurrency income @
                       '' is below national average.'']
         else
           insights @ [''Median household income of '' @ formatCurrency income @
                       '' is close to national average.''])
      else insights)"

text \<open>Lines 138 to 150, \<^verbatim>\<open>// Employment insights\<close>.\<close>

definition employment_insights :: "AnalysisRecord \<Rightarrow> string list \<Rightarrow> string list" where
  "employment_insights d insights =
     (if unemployment_rate d \<noteq> Undefined then
        (let unemployment = unemployment_rate d in
         if js_lt unemployment 3 then
           insights @ [''Very low unemployment rate of '' @ formatPercentage unemployment @
                       ''.'']
         else if js_lt unemployment 5 then
           insights @ [''Low unemployment rate of '' @ formatPercentage unemployment @ ''.'']
         else if js_gt unemployment 8 then
           insights @ [''Higher unemployment rate of '' @ formatPercentage unemployment @
                       ''.'']
         else
           insights @ [''Unemployment rate of '' @ formatPercentage unemployment @
                       '' is around national average.''])
      else insights)"

text \<open>The array \<^verbatim>\<open>insights\<close> when line 152 is reached.\<close>

definition insight_list :: "host \<Rightarrow> AnalysisRecord \<Rightarrow> string list" where
  "insight_list h d =
     employment_insights d (income_insights d (growth_insights d
       (population_insights h d [])))"

text \<open>
  Lines 152 to 163: the container is emptied and gets one item for each insight; when
  there is none, it gets the single fallback item. The result is the list of the texts
  of the container's items.
\<close>

definition generateInsights :: "host \<Rightarrow> AnalysisRecord \<Rightarrow> string list" where
  "generateInsights h d =
     (let insights = insight_list h d in
      if length insights = 0 then [''No specific insights available with current data.'']
      else insights)"

subsection \<open>The page\<close>

text \<open>
  The elements the controller holds and writes: the \<^verbatim>\<open>style.display\<close> of the loading,
  error and results blocks and of the two parts of the button, the button's
  \<^verbatim>\<open>disabled\<close> flag, the class \<^verbatim>\<open>show\<close> of the results block, and the text of each
  output element. \<open>jsonData\<close> holds the record whose JSON text the element shows.
  \<open>requests\<close> is the log of the calls of \<^verbatim>\<open>fetch\<close>, in the order they were issued.
\<close>

record page =
  loading_display :: string
  analyzeBtn_disabled :: bool
  btn_text_display :: string
  loading_spinner_display :: string
  error_textContent :: string
  error_display :: string
  results_display :: string
  results_show :: bool
  cityName :: string
  analysisDate :: string
  population_text :: string
  growth_text :: string
  income_text :: string
  unemployment_text :: string
  insights_items :: "string list"
  jsonData :: "AnalysisRecord option"
  requests :: "(string \<times> string) list"

text \<open>Lines 190 to 222.\<close>

definition showLoading :: "page \<Rightarrow> page" where
  "showLoading p =
     p\<lparr>loading_display := ''block'', analyzeBtn_disabled := True,
       btn_text_display := ''none'', loading_spinner_display := ''inline''\<rparr>"

definition hideLoading :: "page \<Rightarrow> page" where
  "hideLoading p =
     p\<lparr>loading_display := ''none'', analyzeBtn_disabled := False,
       btn_text_display := ''inline'', loading_spinner_display := ''none''\<rparr>"

definition showError :: "string \<Rightarrow> page \<Rightarrow> page" where
  "showError message p = p\<lparr>error_textContent := message, error_display := ''block''\<rparr>"

definition hideError :: "page \<Rightarrow> page" where
  "hideError p = p\<lparr>error_display := ''none''\<rparr>"

definition showResults :: "page \<Rightarrow> page" where
  "showResults p = p\<lparr>results_display := ''block'', results_show := True\<rparr>"

definition hideResults :: "page \<Rightarrow> page" where
  "hideResults p = p\<lparr>results_display := ''none'', results_show := False\<rparr>"

subsection \<open>Showing a record\<close>

text \<open>What a \<^verbatim>\<open>try\<close> block can throw.\<close>

datatype exn = FetchFailed | TypeError

text \<open>
  \<^verbatim>\<open>displayResults(data)\<close>, lines 62 to 86. Without a record (the response has
  no \<^verbatim>\<open>data\<close>), reading \<^verbatim>\<open>data.city\<close> on line 64 throws before anything is written.
\<close>

definition displayResults :: "host \<Rightarrow> AnalysisRecord option \<Rightarrow> page \<Rightarrow> exn + page" where
  "displayResults h payload p =
     (case payload of
        None \<Rightarrow> Inl TypeError
      | Some d \<Rightarrow>
          Inr (showResults
            (p\<lparr>cityName := city d @ '', '' @ state d,
               analysisDate := ''Analysis generated on '' @ toLocaleDateString h,
               population_text := formatNumber h (js_or (total_population d) (population d)),
               growth_text := formatPercentage (population_growth_5yr d),
               income_text := formatCurrency (median_household_income d),
               unemployment_text := formatPercentage (unemployment_rate d),
               insights_items := generateInsights h d,
               jsonData := Some d\<rparr>)))"

subsection \<open>Submitting the form\<close>

text \<open>
  \<^verbatim>\<open>String.prototype.trim\<close> removes white space and line terminators at both ends. Of
  those, the code units below 256 are TAB, LF, VT, FF, CR, the space and the
  no-break space.
\<close>

definition is_white_space :: "char \<Rightarrow> bool" where
  "is_white_space c \<longleftrightarrow>
     c \<in> set [CHR 0x09, CHR 0x0A, CHR 0x0B, CHR 0x0C, CHR 0x0D, CHR 0x20, CHR 0xA0]"

definition trim :: "string \<Rightarrow> string" where
  "trim s = rev (dropWhile is_white_space (rev (dropWhile is_white_space s)))"

text \<open>
  \<^verbatim>\<open>data.error || 'An error occurred while analyzing the city.'\<close>: the empty string is
  falsy, as a missing text is.
\<close>

definition error_or_default :: "string option \<Rightarrow> string" where
  "error_or_default e =
     (case e of
        None \<Rightarrow> ''An error occurred while analyzing the city.''
      | Some m \<Rightarrow> if m = [] then ''An error occurred while analyzing the city.'' else m)"

text \<open>
  The \<^verbatim>\<open>try\<close> block of \<^verbatim>\<open>analyzeCity\<close>, lines 38 to 53. The call of \<^verbatim>\<open>fetch\<close> is
  logged. A throw comes with the page as it is at that moment.
\<close>

definition try_block :: "host \<Rightarrow> string \<times> string \<Rightarrow> page \<Rightarrow> (exn \<times> page) + page" where
  "try_block h request p =
     (let p' = p\<lparr>requests := requests p @ [request]\<rparr> in
      case fetch h request of
        Rejected \<Rightarrow> Inl (FetchFailed, p')
      | Resolved r \<Rightarrow>
          if success r then
            (case displayResults h (data r) p' of
               Inl e \<Rightarrow> Inl (e, p')
             | Inr q \<Rightarrow> Inr q)
          else Inr (showError (error_or_default (error r)) p'))"

text \<open>
  \<^verbatim>\<open>analyzeCity()\<close>, lines 25 to 60, from the two input values and the page to the page
  when the method has completed: the validation, the \<^verbatim>\<open>try\<close> block, the \<^verbatim>\<open>catch\<close>
  block on whatever was thrown, and \<^verbatim>\<open>finally\<close>. \<^verbatim>\<open>console.error\<close> writes nothing
  on the page.
\<close>

definition analyzeCity :: "host \<Rightarrow> string \<Rightarrow> string \<Rightarrow> page \<Rightarrow> page" where
  "analyzeCity h cityInput stateInput p =
     (let c = trim cityInput; s = trim stateInput in
      if c = [] \<or> s = [] then showError ''Please enter both city and state.'' p
      else
        (let p1 = hideResults (hideError (showLoading p));
             p2 = (case try_block h (c, s) p1 of
                     Inr q \<Rightarrow> q
                   | Inl (e, q) \<Rightarrow>
                       showError
                         ''Network error. Please check your connection and try again.'' q)
         in hideLoading p2))"

subsection \<open>Inputs of the examples\<close>

text \<open>The record of the Springfield scenario.\<close>

definition springfield :: AnalysisRecord where
  "springfield =
     \<lparr>city = ''Springfield'', state = ''IL'', total_population = Number 114000,
      population = Undefined, population_growth_5yr = Number (32 / 10),
      median_household_income = Number 65000, unemployment_rate = Number (41 / 10)\<rparr>"

text \<open>
  A record with none of the tracked properties, one where each of them is \<^verbatim>\<open>null\<close>, and
  one where the counts are zero.
\<close>

definition no_data :: AnalysisRecord where
  "no_data =
     \<lparr>city = ''Springfield'', state = ''IL'', total_population = Undefined,
      population = Undefined, population_growth_5yr = Undefined,
      median_household_income = Undefined, unemployment_rate = Undefined\<rparr>"

definition all_null :: AnalysisRecord where
  "all_null =
     \<lparr>city = ''Springfield'', state = ''IL'', total_population = Null,
      population = Null, population_growth_5yr = Null,
      median_household_income = Null, unemployment_rate = Null\<rparr>"

definition ghost_town :: AnalysisRecord where
  "ghost_town =
     \<lparr>city = ''Bodie'', state = ''CA'', total_population = Number 0,
      population = Number 0, population_growth_5yr = Number 0,
      median_household_income = Number 0, unemployment_rate = Number 0\<rparr>"

text \<open>The page before the first submission.\<close>

definition idle_page :: page where
  "idle_page =
     \<lparr>loading_display = ''none'', analyzeBtn_disabled = False,
      btn_text_display = ''inline'', loading_spinner_display = ''none'',
      error_textContent = [], error_display = ''none'',
      results_display = ''none'', results_show = False,
      cityName = [], analysisDate = [], population_text = [], growth_text = [],
      income_text = [], unemployment_text = [], insights_items = [],
      jsonData = None, requests = []\<rparr>"

text \<open>
  Services: one that does not know the city, one that reports a failure with an empty
  text, and one that reports success without a record.
\<close>

definition city_not_found :: "string \<times> string \<Rightarrow> outcome" where
  "city_not_found request =
     Resolved \<lparr>success = False, data = None, error = Some ''City not found''\<rparr>"

definition empty_error :: "string \<times> string \<Rightarrow> outcome" where
  "empty_error request = Resolved \<lparr>success = False, data = None, error = Some []\<rparr>"

definition no_payload :: "string \<times> string \<Rightarrow> outcome" where
  "no_payload request = Resolved \<lparr>success = True, data = None, error = None\<rparr>"

text \<open>A service that answers every request with the Springfield record.\<close>

definition knows_springfield :: "string \<times> string \<Rightarrow> outcome" where
  "knows_springfield request =
     Resolved \<lparr>success = True, data = Some springfield, error = None\<rparr>"

subsection \<open>Reading a printed percentage\<close>

text \<open>
  The number that a string of the form \<^verbatim>\<open>[-]digits.digit%\<close> denotes: an optional minus
  sign, an integer part without a superfluous leading zero, the point, exactly one
  fractional digit, and the percent sign. Every other string denotes nothing. The
  digits are the code units 48 to 57.
\<close>

definition digit_value :: "char \<Rightarrow> nat option" where
  "digit_value c =
     (let k = of_char c :: nat in if 48 \<le> k \<and> k \<le> 57 then Some (k - 48) else None)"

fun read_digits :: "nat \<Rightarrow> string \<Rightarrow> nat option" where
  "read_digits acc [] = Some acc"
| "read_digits acc (c # cs) =
     (case digit_value c of None \<Rightarrow> None | Some v \<Rightarrow> read_digits (10 * acc + v) cs)"

definition read_unsigned1 :: "string \<Rightarrow> rat option" where
  "read_unsigned1 s =
     (case rev s of
        f # p # sd \<Rightarrow>
          (let ds = rev sd in
           if p = CHR ''.'' \<and> ds \<noteq> [] \<and> (ds = ''0'' \<or> hd ds \<noteq> CHR ''0'') then
             (case (read_digits 0 ds, digit_value f) of
                (Some i, Some v) \<Rightarrow> Some (of_nat i + of_nat v / 10)
              | _ \<Rightarrow> None)
           else None)
      | _ \<Rightarrow> None)"

definition read_fixed1 :: "string \<Rightarrow> rat option" where
  "read_fixed1 s =
     (case s of
        [] \<Rightarrow> None
      | c # t \<Rightarrow> if c = CHR ''-'' then map_option uminus (read_unsigned1 t)
                 else read_unsigned1 s)"

definition percent_value :: "string \<Rightarrow> rat option" where
  "percent_value s =
     (case rev s of
        [] \<Rightarrow> None
      | c # t \<Rightarrow> if c = CHR ''%'' then read_fixed1 (rev t) else None)"

subsection \<open>The large-number rule as the specification words it\<close>

text \<open>
  The three ranges of the specification, for a number that is present: millions,
  thousands, and the locale's rendering below one thousand.
\<close>

definition formatNumber_spec :: "host \<Rightarrow> rat \<Rightarrow> string" where
  "formatNumber_spec h v =
     (if v \<ge> 1000000 then tenths_to_string (Math_round (v / 100000)) @ ''M''
      else if 1000 \<le> v \<and> v < 1000000 then tenths_to_string (Math_round (v / 100)) @ ''K''
      else toLocaleString h v)"

section \<open>Properties\<close>

subsection \<open>Evaluation on numerals\<close>

lemma floor_rat_numeral: "\<lfloor>numeral a / numeral b :: rat\<rfloor> = numeral a div numeral b"
  by (metis floor_divide_of_int_eq of_int_numeral)

lemma decimal_numeral:
  "decimal (numeral k) =
     (if (numeral k :: nat) < 10 then [digit (numeral k)]
      else decimal (numeral k div 10) @ [digit (numeral k)])"
  by (subst decimal.simps) simp

lemma decimal_0: "decimal 0 = ''0''"
  by (simp add: decimal.simps digit_def)

lemma decimal_1: "decimal (Suc 0) = ''1''"
  by (simp add: decimal.simps digit_def)

lemma bit_length_numeral: "bit_length (numeral k) = Suc (bit_length (numeral k div 2))"
  by (subst bit_length.simps) simp

lemma bit_length_0: "bit_length 0 = 0"
  by (simp add: bit_length.simps)

lemma bit_length_1: "bit_length (Suc 0) = 1"
  by (simp add: bit_length.simps)

lemmas double_defs = to_double_def binade_def pow2_def round_half_even_def
  bit_length_numeral bit_length_0 bit_length_1

text \<open>The doubles that store the numbers of the examples below.\<close>

lemma to_double_0: "to_double 0 = 0"
  by (simp add: to_double_def)

lemma to_double_tenth: "to_double (1 / 10) = 3602879701896397 / 36028797018963968"
  by (simp add: double_defs Let_def floor_rat_numeral)

lemma to_double_values:
  "to_double (16 / 5) = 7205759403792794 / 2251799813685248"
  "to_double (41 / 10) = 4616189618054758 / 1125899906842624"
  "to_double (81 / 20) = 4559894622712627 / 1125899906842624"
  "to_double (3 / 20) = 5404319552844595 / 36028797018963968"
  "to_double (87 / 20) = 4897664594765414 / 1125899906842624"
  "to_double (1 / 4) = 1 / 4"
  "to_double (- (49 / 4)) = - (49 / 4)"
  by (simp_all add: double_defs Let_def floor_rat_numeral)

lemmas print_defs = Math_round_def tenths_to_string_def sign_prefix_def decimal_numeral
  decimal_0 decimal_1 digit_def round_half_up_def grouped_def fraction3_def toFixed1_def
  format_USD_def toLocaleString_en_US_def Let_def floor_rat_numeral to_double_0
  to_double_values

text \<open>Decimal ties as \<^verbatim>\<open>toFixed(1)\<close> prints them: the last two are ties of the double too.\<close>

lemma toFixed1_ties:
  "toFixed1 (405 / 100) = ''4.0'' \<and> toFixed1 (15 / 100) = ''0.1'' \<and>
   toFixed1 (435 / 100) = ''4.3'' \<and> toFixed1 (25 / 100) = ''0.3'' \<and>
   toFixed1 (- (1225 / 100)) = ''-12.3''"
  by (simp add: print_defs)

lemmas insight_defs = population_insights_def growth_insights_def income_insights_def
  employment_insights_def insight_list_def generateInsights_def js_or_def js_gt_def js_lt_def
  nationalMedian_def Math_abs_def

lemmas page_defs = showLoading_def hideLoading_def showError_def hideError_def
  showResults_def hideResults_def

lemmas host_defs = offline_def browser_en_US_def

subsection \<open>The stored double\<close>

text \<open>
  \<open>binade\<close> finds the power of two at or below a positive number, and the double is
  within half a unit in the last place of the number it stores.
\<close>

lemma bit_length_bounds: "0 < n \<Longrightarrow> 2 ^ (bit_length n - 1) \<le> n \<and> n < 2 ^ bit_length n"
proof (induction n rule: bit_length.induct)
  case (1 n)
  show ?case
  proof (cases "n div 2 = 0")
    case True
    with 1(2) have "n = 1"
      by (simp add: div_eq_0_iff)
    then show ?thesis
      by (simp add: bit_length_1)
  next
    case False
    with 1 have ih: "2 ^ (bit_length (n div 2) - 1) \<le> n div 2" "n div 2 < 2 ^ bit_length (n div 2)"
      by simp_all
    have pos: "0 < bit_length (n div 2)"
      using False by (subst bit_length.simps) simp
    have unfold: "bit_length n = Suc (bit_length (n div 2))"
      using 1(2) by (subst bit_length.simps) simp
    have "2 ^ (bit_length n - 1) = 2 * 2 ^ (bit_length (n div 2) - 1)"
      using pos unfold by (cases "bit_length (n div 2)") simp_all
    also have "\<dots> \<le> 2 * (n div 2)"
      using ih(1) by simp
    also have "\<dots> \<le> n"
      by simp
    finally have lower: "2 ^ (bit_length n - 1) \<le> n" .
    have "n < 2 * (n div 2) + 2"
      by presburger
    also have "\<dots> \<le> 2 * 2 ^ bit_length (n div 2)"
      using ih(2) by simp
    finally have "n < 2 ^ bit_length n"
      by (simp add: unfold)
    with lower show ?thesis
      by simp
  qed
qed

lemma round_half_even_near: "\<bar>of_int (round_half_even r) - r\<bar> \<le> 1 / 2"
proof -
  have "of_int \<lfloor>r\<rfloor> \<le> r" "r < of_int \<lfloor>r\<rfloor> + 1"
    using floor_correct [of r] by simp_all
  then show ?thesis
    by (auto simp add: round_half_even_def Let_def abs_le_iff)
qed

lemma pow2_pos: "0 < pow2 e"
  by (simp add: pow2_def)

text \<open>The double is within half a unit in the last place of the number.\<close>

lemma to_double_near:
  "\<bar>to_double x - x\<bar> \<le> pow2 (max (binade \<bar>x\<bar>) (- 1022) - 52) / 2"
proof (cases "x = 0")
  case True
  then show ?thesis
    using pow2_pos [of "max (binade \<bar>x\<bar>) (- 1022) - 52"] by (simp add: to_double_def)
next
  case False
  let ?ulp = "pow2 (max (binade \<bar>x\<bar>) (- 1022) - 52)"
  let ?n = "round_half_even (\<bar>x\<bar> / ?ulp)"
  have ulp: "0 < ?ulp"
    by (rule pow2_pos)
  have "to_double x - x = sgn x * (of_int ?n * ?ulp - \<bar>x\<bar>)"
  proof -
    have "sgn x * (of_int ?n * ?ulp - \<bar>x\<bar>) = sgn x * of_int ?n * ?ulp - sgn x * \<bar>x\<bar>"
      by (simp add: algebra_simps)
    also have "\<dots> = sgn x * of_int ?n * ?ulp - x"
      by (simp only: sgn_mult_abs)
    finally show ?thesis
      using False by (simp add: to_double_def Let_def)
  qed
  then have "\<bar>to_double x - x\<bar> = \<bar>of_int ?n * ?ulp - \<bar>x\<bar>\<bar>"
    using False by (simp add: abs_mult abs_sgn_eq)
  also have "\<dots> = \<bar>of_int ?n - \<bar>x\<bar> / ?ulp\<bar> * ?ulp"
  proof -
    have "of_int ?n * ?ulp - \<bar>x\<bar> = (of_int ?n - \<bar>x\<bar> / ?ulp) * ?ulp"
      using ulp by (simp add: field_simps)
    then show ?thesis
      using ulp by (simp add: abs_mult)
  qed
  also have "\<dots> \<le> 1 / 2 * ?ulp"
    using round_half_even_near [of "\<bar>x\<bar> / ?ulp"] ulp
    by (intro mult_right_mono) simp_all
  finally show ?thesis
    by simp
qed

lemma to_double_binary_ties:
  "to_double 9007199254740993 = 9007199254740992 \<and>
   to_double 9007199254740995 = 9007199254740996"
  by (simp add: double_defs Let_def floor_rat_numeral)

lemma pow2_nat: "pow2 (int n) = 2 ^ n"
  by (simp add: pow2_def)

lemma pow2_neg_nat: "pow2 (- int n) = 1 / 2 ^ n"
  by (auto simp add: pow2_def)

lemma pow2_shift: "pow2 (e - 52) = pow2 e / 2 ^ 52"
proof -
  consider "52 \<le> e" | "0 \<le> e" "e < 52" | "e < 0"
    by linarith
  then show ?thesis
  proof cases
    case 1
    define m where "m = nat (e - 52)"
    have m: "e - 52 = int m" "e = int (m + 52)"
      using 1 by (simp_all add: m_def)
    have "pow2 (e - 52) = 2 ^ m"
      unfolding m(1) by (rule pow2_nat)
    moreover have "pow2 e = 2 ^ (m + 52)"
      unfolding m(2) by (rule pow2_nat)
    ultimately show ?thesis
      by (simp add: power_add)
  next
    case 2
    define m where "m = nat e"
    have m: "m < 52" "e = int m" "e - 52 = - int (52 - m)"
      using 2 by (simp_all add: m_def)
    have "(2 :: rat) ^ 52 = 2 ^ (m + (52 - m))"
      using m(1) by simp
    also have "\<dots> = 2 ^ m * 2 ^ (52 - m)"
      by (rule power_add)
    finally have split: "(2 :: rat) ^ 52 = 2 ^ m * 2 ^ (52 - m)" .
    have "pow2 (e - 52) = 1 / 2 ^ (52 - m)"
      unfolding m(3) by (rule pow2_neg_nat)
    moreover have "pow2 e = 2 ^ m"
      unfolding m(2) by (rule pow2_nat)
    ultimately show ?thesis
      by (simp only: split) simp
  next
    case 3
    define m where "m = nat (- e)"
    have m: "e = - int m" "e - 52 = - int (m + 52)"
      using 3 by (simp_all add: m_def)
    have "pow2 (e - 52) = 1 / 2 ^ (m + 52)"
      unfolding m(2) by (rule pow2_neg_nat)
    moreover have "pow2 e = 1 / 2 ^ m"
      unfolding m(1) by (rule pow2_neg_nat)
    ultimately show ?thesis
      by (simp add: power_add)
  qed
qed

lemma binade_bounds:
  assumes "0 < y"
  shows "pow2 (binade y) \<le> y \<and> y < pow2 (binade y + 1)"
proof (cases "1 \<le> y")
  case True
  define n where "n = nat \<lfloor>y\<rfloor>"
  from True have n: "0 < n"
    by (simp add: n_def)
  have fl: "of_nat n \<le> y" "y < of_nat n + 1"
    using True floor_correct [of y] by (simp_all add: n_def)
  have b: "2 ^ (bit_length n - 1) \<le> n" "n < 2 ^ bit_length n"
    using bit_length_bounds [OF n] by blast+
  have pos: "0 < bit_length n"
    using n by (subst bit_length.simps) simp
  have e: "binade y = int (bit_length n - 1)"
    using True pos by (simp add: binade_def n_def)
  have lower: "pow2 (binade y) \<le> y"
  proof -
    have "(2 :: rat) ^ (bit_length n - 1) = of_nat (2 ^ (bit_length n - 1))"
      by simp
    also have "\<dots> \<le> of_nat n"
      using b(1) by (simp only: of_nat_le_iff)
    also have "\<dots> \<le> y"
      by (rule fl(1))
    finally show ?thesis
      by (simp only: e pow2_nat)
  qed
  have upper: "y < pow2 (binade y + 1)"
  proof -
    from b(2) have "Suc n \<le> 2 ^ bit_length n"
      by (rule Suc_leI)
    then have "(of_nat (Suc n) :: rat) \<le> of_nat (2 ^ bit_length n)"
      by (simp only: of_nat_le_iff)
    then have "of_nat n + 1 \<le> (2 :: rat) ^ bit_length n"
      by simp
    with fl(2) have "y < 2 ^ bit_length n"
      by simp
    moreover have "binade y + 1 = int (bit_length n)"
      using e pos by simp
    ultimately show ?thesis
      by (simp only: pow2_nat)
  qed
  from lower upper show ?thesis
    by simp
next
  case False
  define z where "z = 1 / y"
  define k where "k = (if of_int \<lfloor>z\<rfloor> = z then \<lfloor>z\<rfloor> - 1 else \<lfloor>z\<rfloor>)"
  define n where "n = nat k"
  from False assms have z1: "1 < z"
    by (simp add: z_def)
  have fl: "of_int \<lfloor>z\<rfloor> \<le> z" "z < of_int \<lfloor>z\<rfloor> + 1"
    using floor_correct [of z] by simp_all
  have k_lt: "of_int k < z"
  proof (cases "of_int \<lfloor>z\<rfloor> = z")
    case True
    then have "of_int k = z - 1"
      by (simp add: k_def)
    then show ?thesis
      by simp
  next
    case False
    with fl(1) have "of_int \<lfloor>z\<rfloor> < z"
      by (rule order.not_eq_order_implies_strict [rotated])
    with False show ?thesis
      by (simp only: k_def if_False)
  qed
  have k_ge: "z \<le> of_int k + 1"
  proof (cases "of_int \<lfloor>z\<rfloor> = z")
    case True
    then have "of_int k = z - 1"
      by (simp add: k_def)
    then show ?thesis
      by simp
  next
    case False
    with fl(2) show ?thesis
      by (simp only: k_def if_False)
  qed
  have kpos: "0 < k"
  proof -
    from z1 k_ge have "(0 :: rat) < of_int k"
      by simp
    then show ?thesis
      by simp
  qed
  then have n: "0 < n"
    by (simp add: n_def)
  have b: "2 ^ (bit_length n - 1) \<le> n" "n < 2 ^ bit_length n"
    using bit_length_bounds [OF n] by blast+
  have pos: "0 < bit_length n"
    using n by (subst bit_length.simps) simp
  have e: "binade y = - int (bit_length n)"
    using False by (simp add: binade_def z_def k_def n_def Let_def)
  have kk: "(of_int k :: rat) = of_nat n"
    using kpos by (simp add: n_def)
  have upper_z: "z \<le> 2 ^ bit_length n"
  proof -
    from b(2) have "Suc n \<le> 2 ^ bit_length n"
      by (rule Suc_leI)
    then have "(of_nat (Suc n) :: rat) \<le> of_nat (2 ^ bit_length n)"
      by (simp only: of_nat_le_iff)
    then have "of_int k + 1 \<le> (2 :: rat) ^ bit_length n"
      by (simp add: kk)
    with k_ge show ?thesis
      by simp
  qed
  have lower_z: "2 ^ (bit_length n - 1) < z"
  proof -
    have "(of_nat (2 ^ (bit_length n - 1)) :: rat) \<le> of_nat n"
      using b(1) by (simp only: of_nat_le_iff)
    then have "(2 :: rat) ^ (bit_length n - 1) \<le> of_int k"
      by (simp add: kk)
    then show ?thesis
      using k_lt by (rule le_less_trans)
  qed
  have y: "y = 1 / z"
    by (simp add: z_def)
  have lower: "pow2 (binade y) \<le> y"
  proof -
    have p: "pow2 (binade y) = 1 / 2 ^ bit_length n"
      unfolding e by (rule pow2_neg_nat)
    have "1 / 2 ^ bit_length n \<le> 1 / z"
      using upper_z z1 by (simp add: frac_le)
    then have "1 / 2 ^ bit_length n \<le> y"
      by (simp only: y)
    then show ?thesis
      by (simp only: p)
  qed
  have upper: "y < pow2 (binade y + 1)"
  proof -
    have "binade y + 1 = - int (bit_length n - 1)"
      using e pos by simp
    then have p: "pow2 (binade y + 1) = 1 / 2 ^ (bit_length n - 1)"
      by (simp only: pow2_neg_nat)
    have "1 / z < 1 / 2 ^ (bit_length n - 1)"
      using lower_z by (simp add: frac_less2)
    then have "y < 1 / 2 ^ (bit_length n - 1)"
      by (simp only: y)
    then show ?thesis
      by (simp only: p)
  qed
  from lower upper show ?thesis
    by simp
qed

text \<open>
  In the range of the normal numbers, the relative distance of the double from the
  number is at most \<open>2\<^sup>-\<^sup>5\<^sup>3\<close>.
\<close>

lemma to_double_relative:
  assumes "pow2 (- 1022) \<le> \<bar>x\<bar>"
  shows "\<bar>to_double x - x\<bar> \<le> \<bar>x\<bar> / 2 ^ 53"
proof -
  have pos: "0 < \<bar>x\<bar>"
    using assms pow2_pos [of "- 1022"] by linarith
  from binade_bounds [OF pos] have lower: "pow2 (binade \<bar>x\<bar>) \<le> \<bar>x\<bar>"
    by simp
  have ulp: "pow2 (max (binade \<bar>x\<bar>) (- 1022) - 52) \<le> \<bar>x\<bar> / 2 ^ 52"
  proof -
    have "pow2 (max (binade \<bar>x\<bar>) (- 1022)) \<le> \<bar>x\<bar>"
      using lower assms by (simp add: max_def)
    then show ?thesis
      by (simp only: pow2_shift) (simp add: divide_right_mono)
  qed
  have "\<bar>to_double x - x\<bar> \<le> pow2 (max (binade \<bar>x\<bar>) (- 1022) - 52) / 2"
    by (rule to_double_near)
  also have "\<dots> \<le> \<bar>x\<bar> / 2 ^ 52 / 2"
    using ulp by (simp add: divide_right_mono)
  also have "\<dots> = \<bar>x\<bar> / 2 ^ 53"
    by simp
  finally show ?thesis .
qed

subsection \<open>The formatters\<close>

text \<open>
  Claim C1, as the code has it. \<^verbatim>\<open>formatNumber\<close> maps 2350000 to \<^verbatim>\<open>"2.4M"\<close> (2350000 /
  100000 is 23.5, which rounds to 24, and 24 / 10 prints as 2.4), 45000 to \<^verbatim>\<open>"45K"\<close>
  (450 / 10 prints as 45, without a fractional digit), and, in the locale \<^verbatim>\<open>en-US\<close>,
  850 to \<^verbatim>\<open>"850"\<close>.
\<close>

theorem formatNumber_examples:
  "formatNumber h (Number 2350000) = ''2.4M'' \<and>
   formatNumber h (Number 45000) = ''45K'' \<and>
   formatNumber (browser_en_US service) (Number 850) = ''850''"
  by (simp add: browser_en_US_def print_defs)

text \<open>
  Claim C1 as stated (2350000 gives \<^verbatim>\<open>"23.5M"\<close>, 45000 gives \<^verbatim>\<open>"45.0K"\<close>, 850 gives
  \<^verbatim>\<open>"850"\<close>) does not hold.
\<close>

theorem formatNumber_examples_counterexample:
  "\<not> (formatNumber offline (Number 2350000) = ''23.5M'' \<and>
      formatNumber offline (Number 45000) = ''45.0K'' \<and>
      formatNumber offline (Number 850) = ''850'')"
  by (simp add: print_defs)

subsection \<open>A printed percentage denotes the nearest tenth\<close>

text \<open>Reading back what \<open>decimal\<close> and \<open>digit\<close> print.\<close>

lemma below_ten:
  fixes m :: nat
  assumes "m < 10"
  shows "m = 0 \<or> m = 1 \<or> m = 2 \<or> m = 3 \<or> m = 4 \<or> m = 5 \<or> m = 6 \<or> m = 7 \<or> m = 8 \<or> m = 9"
  using assms by (auto simp add: eval_nat_numeral less_Suc_eq)

lemma digit_value_digit: "digit_value (digit n) = Some (n mod 10)"
proof -
  have "n mod 10 < 10"
    by simp
  then have "n mod 10 = 0 \<or> n mod 10 = 1 \<or> n mod 10 = 2 \<or> n mod 10 = 3 \<or>
      n mod 10 = 4 \<or> n mod 10 = 5 \<or> n mod 10 = 6 \<or> n mod 10 = 7 \<or>
      n mod 10 = 8 \<or> n mod 10 = 9"
    by (rule below_ten)
  then show ?thesis
    by (elim disjE) (simp_all add: digit_def digit_value_def)
qed

lemma digit_value_minus: "digit_value (CHR ''-'') = None"
  by (simp add: digit_value_def)

lemma digit_value_zero: "digit_value (CHR ''0'') = Some 0"
  by (simp add: digit_value_def)

lemma digit_not_minus: "digit n \<noteq> CHR ''-''"
  using digit_value_digit [of n] digit_value_minus by auto

lemma digit_zero_iff: "digit n = CHR ''0'' \<longleftrightarrow> n mod 10 = 0"
proof
  assume "digit n = CHR ''0''"
  with digit_value_digit [of n] digit_value_zero show "n mod 10 = 0"
    by auto
next
  assume "n mod 10 = 0"
  then show "digit n = CHR ''0''"
    by (simp add: digit_def)
qed

lemma read_digits_snoc:
  "read_digits acc (cs @ [c]) =
     (case read_digits acc cs of
        None \<Rightarrow> None
      | Some a \<Rightarrow> (case digit_value c of None \<Rightarrow> None | Some v \<Rightarrow> Some (10 * a + v)))"
  by (induction cs arbitrary: acc) (auto split: option.splits)

lemma read_digits_decimal: "read_digits 0 (decimal n) = Some n"
proof (induction n rule: decimal.induct)
  case (1 n)
  show ?case
  proof (cases "n < 10")
    case True
    then show ?thesis
      by (subst decimal.simps) (simp add: digit_value_digit)
  next
    case False
    with 1 have "read_digits 0 (decimal (n div 10)) = Some (n div 10)"
      by simp
    with False show ?thesis
      by (subst decimal.simps) (simp add: read_digits_snoc digit_value_digit)
  qed
qed

lemma decimal_nonempty: "decimal n \<noteq> []"
  by (subst decimal.simps) simp

lemma hd_decimal: "\<exists>m. hd (decimal n) = digit m \<and> (0 < n \<longrightarrow> m mod 10 \<noteq> 0)"
proof (induction n rule: decimal.induct)
  case (1 n)
  show ?case
  proof (cases "n < 10")
    case True
    have "hd (decimal n) = digit n"
      using True by (subst decimal.simps) simp
    moreover have "0 < n \<longrightarrow> n mod 10 \<noteq> 0"
      using True by simp
    ultimately show ?thesis
      by blast
  next
    case False
    from 1 [OF False] obtain m where m: "hd (decimal (n div 10)) = digit m"
      "0 < n div 10 \<longrightarrow> m mod 10 \<noteq> 0"
      by (elim exE conjE)
    from False have pos: "0 < n div 10"
      by simp
    have "hd (decimal n) = hd (decimal (n div 10))"
      using False by (subst decimal.simps) (simp add: decimal_nonempty)
    with m pos show ?thesis
      by auto
  qed
qed

lemma decimal_zero_iff: "decimal n = ''0'' \<longleftrightarrow> n = 0"
proof
  assume z: "decimal n = ''0''"
  obtain m where m: "hd (decimal n) = digit m" "0 < n \<longrightarrow> m mod 10 \<noteq> 0"
    using hd_decimal by blast
  from z m(1) have "digit m = CHR ''0''"
    by simp
  then have "m mod 10 = 0"
    by (simp add: digit_zero_iff)
  with m(2) show "n = 0"
    by simp
next
  assume "n = 0"
  then show "decimal n = ''0''"
    by (simp add: decimal_0)
qed

lemma decimal_canonical: "decimal n = ''0'' \<or> hd (decimal n) \<noteq> CHR ''0''"
proof (cases "n = 0")
  case True
  then show ?thesis
    by (simp add: decimal_0)
next
  case False
  obtain m where m: "hd (decimal n) = digit m" "0 < n \<longrightarrow> m mod 10 \<noteq> 0"
    using hd_decimal by blast
  with False have "digit m \<noteq> CHR ''0''"
    by (simp add: digit_zero_iff)
  with m(1) show ?thesis
    by simp
qed

lemma read_unsigned1_decimal:
  "read_unsigned1 (decimal a @ ''.'' @ [digit c]) = Some (of_nat a + of_nat (c mod 10) / 10)"
  using decimal_canonical [of a]
  by (simp add: read_unsigned1_def decimal_nonempty read_digits_decimal digit_value_digit)

lemma hd_decimal_not_minus: "hd (decimal a) \<noteq> CHR ''-''"
proof -
  obtain m where "hd (decimal a) = digit m"
    using hd_decimal [of a] by blast
  then show ?thesis
    by (simp add: digit_not_minus)
qed

lemma read_fixed1_decimal:
  "read_fixed1 (sign_prefix b @ decimal a @ ''.'' @ [digit c]) =
     Some ((if b then - 1 else 1) * (of_nat a + of_nat (c mod 10) / 10))"
proof (cases b)
  case True
  then show ?thesis
    using read_unsigned1_decimal [of a c]
    by (simp add: read_fixed1_def sign_prefix_def)
next
  case False
  obtain h t where ht: "decimal a = h # t"
    using decimal_nonempty [of a] by (cases "decimal a") auto
  with hd_decimal_not_minus [of a] have "h \<noteq> CHR ''-''"
    by simp
  with False ht show ?thesis
    using read_unsigned1_decimal [of a c]
    by (simp add: read_fixed1_def sign_prefix_def)
qed

lemma percent_value_toFixed1:
  "percent_value (toFixed1 x @ ''%'') =
     Some ((if to_double x < 0 then - 1 else 1) *
           (of_nat (round_half_up (to_double x * 10)) / 10))"
proof -
  let ?n = "round_half_up (to_double x * 10)"
  have split: "(of_nat (?n div 10) :: rat) + of_nat (?n mod 10) / 10 = of_nat ?n / 10"
  proof -
    have "(of_nat ?n :: rat) = of_nat (10 * (?n div 10) + ?n mod 10)"
      by simp
    also have "\<dots> = 10 * of_nat (?n div 10) + of_nat (?n mod 10)"
      by (simp only: of_nat_add of_nat_mult of_nat_numeral)
    finally show ?thesis
      by simp
  qed
  have "percent_value (toFixed1 x @ ''%'') =
      read_fixed1 (sign_prefix (to_double x < 0) @ decimal (?n div 10) @ ''.'' @ [digit ?n])"
    by (simp add: percent_value_def toFixed1_def Let_def)
  also have "\<dots> = Some ((if to_double x < 0 then - 1 else 1) *
      (of_nat (?n div 10) + of_nat (?n mod 10) / 10))"
    by (rule read_fixed1_decimal)
  finally show ?thesis
    by (simp only: split)
qed

lemma nearest_tenth:
  fixes y :: rat
  defines "m \<equiv> \<lfloor>\<bar>y\<bar> * 10 + 1 / 2\<rfloor>"
  shows "\<bar>sgn y * of_int m / 10 - y\<bar> \<le> 1 / 20"
proof -
  have lower: "of_int m \<le> \<bar>y\<bar> * 10 + 1 / 2"
    unfolding m_def by (rule of_int_floor_le)
  have upper: "\<bar>y\<bar> * 10 + 1 / 2 < of_int m + 1"
    unfolding m_def using floor_correct [of "\<bar>y\<bar> * 10 + 1 / 2"] by simp
  have near: "\<bar>of_int m / 10 - \<bar>y\<bar>\<bar> \<le> 1 / 20"
    using lower upper by linarith
  show ?thesis
  proof (cases "y = 0")
    case True
    then show ?thesis
      by simp
  next
    case False
    have "sgn y * (of_int m / 10 - \<bar>y\<bar>) = sgn y * of_int m / 10 - sgn y * \<bar>y\<bar>"
      by (simp add: algebra_simps)
    also have "\<dots> = sgn y * of_int m / 10 - y"
      by (simp only: sgn_mult_abs)
    finally have "sgn y * of_int m / 10 - y = sgn y * (of_int m / 10 - \<bar>y\<bar>)"
      by simp
    then have "\<bar>sgn y * of_int m / 10 - y\<bar> = \<bar>sgn y\<bar> * \<bar>of_int m / 10 - \<bar>y\<bar>\<bar>"
      by (simp add: abs_mult)
    also have "\<dots> = \<bar>of_int m / 10 - \<bar>y\<bar>\<bar>"
      using False by (simp add: abs_sgn_eq)
    finally show ?thesis
      using near by simp
  qed
qed

lemma percent_value_formula:
  "percent_value (toFixed1 x @ ''%'') =
     Some (sgn (to_double x) * of_int \<lfloor>\<bar>to_double x\<bar> * 10 + 1 / 2\<rfloor> / 10)"
proof -
  let ?y = "to_double x"
  have nonneg: "0 \<le> \<lfloor>\<bar>?y\<bar> * 10 + 1 / 2\<rfloor>"
    by simp
  have n: "(of_nat (round_half_up (?y * 10)) :: rat) = of_int \<lfloor>\<bar>?y\<bar> * 10 + 1 / 2\<rfloor>"
    using nonneg by (simp add: round_half_up_def abs_mult)
  have half: "\<lfloor>1 / 2 :: rat\<rfloor> = 0"
    by (rule floor_unique) simp_all
  have zero: "?y = 0 \<Longrightarrow> \<lfloor>\<bar>?y\<bar> * 10 + 1 / 2\<rfloor> = 0"
    by (simp add: half)
  show ?thesis
    unfolding percent_value_toFixed1 n
    using zero by (cases "?y < 0"; cases "?y = 0") (simp_all add: sgn_if)
qed





text \<open>
  With the distance of the double from the number: a percentage in the range of the
  normal numbers is printed as a tenth within one twentieth, and one rounding error of
  the double, of the number itself.
\<close>

lemma formatPercentage_near:
  assumes "pow2 (- 1022) \<le> \<bar>x\<bar>"
  shows "\<exists>r. percent_value (formatPercentage (Number x)) = Some r \<and>
           \<bar>r - x\<bar> \<le> 1 / 20 + \<bar>x\<bar> / 2 ^ 53"
proof -
  let ?r = "sgn (to_double x) * of_int \<lfloor>\<bar>to_double x\<bar> * 10 + 1 / 2\<rfloor> / 10"
  have read: "percent_value (formatPercentage (Number x)) = Some ?r"
    by (simp add: percent_value_formula)
  have "\<bar>?r - x\<bar> \<le> \<bar>?r - to_double x\<bar> + \<bar>to_double x - x\<bar>"
    by simp
  also have "\<dots> \<le> 1 / 20 + \<bar>x\<bar> / 2 ^ 53"
    using nearest_tenth [of "to_double x"] to_double_relative [OF assms]
    by (intro add_mono)
  finally show ?thesis
    using read by blast
qed

text \<open>
  Claim C4. A zero that is present is treated as missing by the number and the currency
  paths: \<^verbatim>\<open>formatNumber(0)\<close> and \<^verbatim>\<open>formatCurrency(0)\<close> return \<^verbatim>\<open>"N/A"\<close>, and a record
  whose \<^verbatim>\<open>total_population\<close> and \<^verbatim>\<open>population\<close> are both 0, or whose
  \<^verbatim>\<open>median_household_income\<close> is 0, gets no sentence from the corresponding rule.
\<close>

theorem zero_is_missing:
  "formatNumber h (Number 0) = ''N/A'' \<and>
   formatCurrency (Number 0) = ''N/A'' \<and>
   (total_population d = Number 0 \<and> population d = Number 0 \<longrightarrow>
      population_insights h d insights = insights) \<and>
   (median_household_income d = Number 0 \<longrightarrow> income_insights d insights = insights)"
  by (simp add: population_insights_def income_insights_def js_or_def)

theorem zero_is_missing_witness:
  "total_population ghost_town = Number 0 \<and> population ghost_town = Number 0 \<and>
   median_household_income ghost_town = Number 0 \<and>
   population_insights offline ghost_town [] = [] \<and>
   income_insights ghost_town [] = [] \<and>
   generateInsights offline ghost_town =
     [''Population has remained stable over the past 5 years.'',
      ''Very low unemployment rate of 0.0%.'']"
  using zero_is_missing [of offline ghost_town "[]"]
  by (simp add: ghost_town_def insight_defs print_defs)

text \<open>
  Claim C5, as the code has it. For every number \<open>v\<close> other than zero,
  \<^verbatim>\<open>formatNumber\<close> returns \<^verbatim>\<open>Math.round(v / 100000) / 10\<close> followed by \<^verbatim>\<open>M\<close> when \<open>v\<close> is
  at least 1,000,000, \<^verbatim>\<open>Math.round(v / 100) / 10\<close> followed by \<^verbatim>\<open>K\<close> when \<open>v\<close> is at
  least 1,000 and below 1,000,000, and the locale's rendering of \<open>v\<close> below 1,000.
\<close>

theorem formatNumber_nonzero:
  "v \<noteq> 0 \<Longrightarrow> formatNumber h (Number v) = formatNumber_spec h v"
  by (simp add: formatNumber_spec_def)

theorem formatNumber_nonzero_witness:
  "(1234567 :: rat) \<noteq> 0 \<and>
   formatNumber offline (Number 1234567) = formatNumber_spec offline 1234567 \<and>
   formatNumber_spec offline 1234567 = ''1.2M''"
  using formatNumber_nonzero [of 1234567 offline]
  by (simp add: formatNumber_spec_def print_defs)

text \<open>
  Claim C5 as stated covers the number 0, which is below 1,000: there the code returns
  \<^verbatim>\<open>"N/A"\<close>, and the locale's rendering of 0 is \<^verbatim>\<open>"0"\<close>.
\<close>

theorem formatNumber_zero_counterexample:
  "formatNumber offline (Number 0) = ''N/A'' \<and> formatNumber_spec offline 0 = ''0''"
  by (simp add: formatNumber_spec_def host_defs print_defs)

subsection \<open>The insight rules\<close>

text \<open>Each block only appends to the array it is given.\<close>

lemma population_insights_append:
  "population_insights h d insights = insights @ population_insights h d []"
  by (simp add: population_insights_def Let_def)

lemma growth_insights_append:
  "growth_insights d insights = insights @ growth_insights d []"
  by (simp add: growth_insights_def Let_def)

lemma income_insights_append:
  "income_insights d insights = insights @ income_insights d []"
  by (simp add: income_insights_def Let_def)

lemma employment_insights_append:
  "employment_insights d insights = insights @ employment_insights d []"
  by (simp add: employment_insights_def Let_def)

lemma insight_list_append:
  "insight_list h d =
     population_insights h d [] @ growth_insights d [] @ income_insights d [] @
     employment_insights d []"
  unfolding insight_list_def
  by (subst employment_insights_append, subst income_insights_append,
      subst growth_insights_append) simp

text \<open>
  Claim C2, as the code has it. For the Springfield record, \<^verbatim>\<open>generateInsights\<close>
  produces exactly four sentences, in order: the mid-size-city sentence, the
  moderate-growth sentence, the close-to-national-average income sentence, and the
  low-unemployment sentence (4.1 is below 5, the second test of the employment rule).
\<close>

theorem generateInsights_springfield:
  "generateInsights h springfield =
     [''Springfield is a mid-size city with 114K residents.'',
      ''Moderate population growth of 3.2% over the past 5 years.'',
      ''Median household income of $65,000 is close to national average.'',
      ''Low unemployment rate of 4.1%.'']"
  by (simp add: springfield_def insight_defs print_defs)

text \<open>
  Claim C2 as stated has the around-national-average sentence in the fourth place. The
  list produced is a different one.
\<close>

theorem generateInsights_springfield_counterexample:
  "generateInsights offline springfield ! 3 = ''Low unemployment rate of 4.1%.'' \<and>
   ''Unemployment rate of 4.1% is around national average.'' \<notin>
     set (generateInsights offline springfield)"
  by (simp add: springfield_def insight_defs print_defs)

text \<open>
  What holds for every record: the insights are what the population rule, the growth
  rule, the income rule and the employment rule contribute, in this order; each rule
  contributes at most one sentence, and none when its property is missing from the
  record, so that it reads as \<^verbatim>\<open>undefined\<close>. The container shows this list, or the single
  fallback item when the list is empty.
\<close>

lemma insights_fixed_order:
  "insight_list h d =
     population_insights h d [] @ growth_insights d [] @ income_insights d [] @
     employment_insights d [] \<and>
   length (population_insights h d []) \<le> 1 \<and>
   length (growth_insights d []) \<le> 1 \<and>
   length (income_insights d []) \<le> 1 \<and>
   length (employment_insights d []) \<le> 1 \<and>
   (total_population d = Undefined \<and> population d = Undefined \<longrightarrow>
      population_insights h d [] = []) \<and>
   (population_growth_5yr d = Undefined \<longrightarrow> growth_insights d [] = []) \<and>
   (median_household_income d = Undefined \<longrightarrow> income_insights d [] = []) \<and>
   (unemployment_rate d = Undefined \<longrightarrow> employment_insights d [] = []) \<and>
   generateInsights h d =
     (if insight_list h d = [] then [''No specific insights available with current data.'']
      else insight_list h d)"
proof -
  have order: "insight_list h d =
     population_insights h d [] @ growth_insights d [] @ income_insights d [] @
     employment_insights d []"
    by (rule insight_list_append)
  have p: "length (population_insights h d []) \<le> 1"
    by (simp add: population_insights_def Let_def)
  have g: "length (growth_insights d []) \<le> 1"
    by (simp add: growth_insights_def Let_def)
  have i: "length (income_insights d []) \<le> 1"
    by (simp add: income_insights_def Let_def)
  have e: "length (employment_insights d []) \<le> 1"
    by (simp add: employment_insights_def Let_def)
  have absent_p: "total_population d = Undefined \<and> population d = Undefined \<longrightarrow>
      population_insights h d [] = []"
    by (simp add: population_insights_def js_or_def)
  have absent_g: "population_growth_5yr d = Undefined \<longrightarrow> growth_insights d [] = []"
    by (simp add: growth_insights_def)
  have absent_i: "median_household_income d = Undefined \<longrightarrow> income_insights d [] = []"
    by (simp add: income_insights_def)
  have absent_e: "unemployment_rate d = Undefined \<longrightarrow> employment_insights d [] = []"
    by (simp add: employment_insights_def)
  have shown: "generateInsights h d =
     (if insight_list h d = [] then [''No specific insights available with current data.'']
      else insight_list h d)"
    by (simp add: generateInsights_def Let_def)
  from order p g i e absent_p absent_g absent_i absent_e shown show ?thesis
    by blast
qed

text \<open>
  When all the tracked properties are missing from the record, the container shows the
  single fallback item.
\<close>

lemma generateInsights_fallback:
  "total_population d = Undefined \<Longrightarrow> population d = Undefined \<Longrightarrow>
   population_growth_5yr d = Undefined \<Longrightarrow> median_household_income d = Undefined \<Longrightarrow>
   unemployment_rate d = Undefined \<Longrightarrow>
   generateInsights h d = [''No specific insights available with current data.'']"
  by (simp add: insight_defs)

lemma generateInsights_no_data:
  "generateInsights h no_data = [''No specific insights available with current data.'']"
  by (rule generateInsights_fallback) (simp_all add: no_data_def)

text \<open>
  The population and income rules are guarded by truthiness and skip a property that
  is \<^verbatim>\<open>null\<close>, as \<^verbatim>\<open>formatPercentage\<close> answers \<^verbatim>\<open>"N/A"\<close> for it. The growth and employment
  rules are guarded by \<^verbatim>\<open>!== undefined\<close> (lines 107 and 139) and run on a \<^verbatim>\<open>null\<close>, which
  compares as the number 0.
\<close>

lemma null_is_skipped_by_truthiness:
  "(total_population d = Null \<and> population d = Null \<longrightarrow>
      population_insights h d insights = insights) \<and>
   (median_household_income d = Null \<longrightarrow> income_insights d insights = insights)"
  by (simp add: population_insights_def income_insights_def js_or_def)

lemma null_is_not_skipped:
  "(population_growth_5yr d = Null \<longrightarrow>
      growth_insights d insights =
        insights @ [''Population has remained stable over the past 5 years.'']) \<and>
   (unemployment_rate d = Null \<longrightarrow>
      employment_insights d insights =
        insights @ [''Very low unemployment rate of N/A.''])"
  by (simp add: growth_insights_def employment_insights_def js_gt_def js_lt_def)

text \<open>
  Claim C6 says that a record in which all four tracked properties are absent gets
  exactly one sentence, the fallback. For the record in which all of them are \<^verbatim>\<open>null\<close>,
  \<^verbatim>\<open>generateInsights\<close> produces two sentences and no fallback.
\<close>

theorem generateInsights_all_null:
  "generateInsights h all_null =
     [''Population has remained stable over the past 5 years.'',
      ''Very low unemployment rate of N/A.''] \<and>
   generateInsights h all_null \<noteq> [''No specific insights available with current data.'']"
  by (simp add: all_null_def insight_defs)

text \<open>
  Claim C7 says that a rule whose property is absent contributes no sentence, and in
  particular no N/A sentence. For the Springfield record with \<^verbatim>\<open>unemployment_rate: null\<close>,
  the employment rule contributes the sentence \<^verbatim>\<open>Very low unemployment rate of N/A.\<close>
\<close>

theorem employment_insights_null:
  "employment_insights (springfield\<lparr>unemployment_rate := Null\<rparr>) [] =
     [''Very low unemployment rate of N/A.''] \<and>
   generateInsights h (springfield\<lparr>unemployment_rate := Null\<rparr>) =
     [''Springfield is a mid-size city with 114K residents.'',
      ''Moderate population growth of 3.2% over the past 5 years.'',
      ''Median household income of $65,000 is close to national average.'',
      ''Very low unemployment rate of N/A.'']"
  by (simp add: springfield_def insight_defs print_defs)

subsection \<open>Submitting the form\<close>

text \<open>A string trims to the empty string exactly when it consists of white space.\<close>

lemma trim_empty_iff: "trim s = [] \<longleftrightarrow> (\<forall>c\<in>set s. is_white_space c)"
proof
  assume "trim s = []"
  then have all: "\<forall>c\<in>set (dropWhile is_white_space s). is_white_space c"
    by (simp add: trim_def dropWhile_eq_Nil_conv)
  have "dropWhile is_white_space s = []"
  proof (rule ccontr)
    assume ne: "dropWhile is_white_space s \<noteq> []"
    then have "\<not> is_white_space (hd (dropWhile is_white_space s))"
      by (rule hd_dropWhile)
    moreover from ne have "hd (dropWhile is_white_space s) \<in> set (dropWhile is_white_space s)"
      by simp
    ultimately show False
      using all by blast
  qed
  then show "\<forall>c\<in>set s. is_white_space c"
    by (simp add: dropWhile_eq_Nil_conv)
next
  assume "\<forall>c\<in>set s. is_white_space c"
  then have empty: "dropWhile is_white_space s = []"
    by (simp add: dropWhile_eq_Nil_conv)
  show "trim s = []"
    unfolding trim_def empty by simp
qed

text \<open>
  Claim C8. When the city or the state is empty after trimming, \<^verbatim>\<open>analyzeCity\<close> issues
  no request and shows the message \<^verbatim>\<open>Please enter both city and state.\<close>; when both
  are non-empty after trimming, it issues exactly one request, with the trimmed values.
\<close>

theorem analyzeCity_validation:
  "(trim cityInput = [] \<or> trim stateInput = [] \<longrightarrow>
      requests (analyzeCity h cityInput stateInput p) = requests p \<and>
      error_textContent (analyzeCity h cityInput stateInput p) =
        ''Please enter both city and state.'' \<and>
      error_display (analyzeCity h cityInput stateInput p) = ''block'') \<and>
   (trim cityInput \<noteq> [] \<and> trim stateInput \<noteq> [] \<longrightarrow>
      requests (analyzeCity h cityInput stateInput p) =
        requests p @ [(trim cityInput, trim stateInput)])"
  by (auto simp add: analyzeCity_def try_block_def displayResults_def page_defs Let_def
      split: outcome.splits option.splits)

theorem analyzeCity_validation_witness:
  "trim ''   '' = [] \<and>
   requests (analyzeCity offline ''   '' ''IL'' idle_page) = [] \<and>
   error_textContent (analyzeCity offline ''   '' ''IL'' idle_page) =
     ''Please enter both city and state.'' \<and>
   error_display (analyzeCity offline ''   '' ''IL'' idle_page) = ''block'' \<and>
   trim '' Springfield '' = ''Springfield'' \<and> trim ''IL'' = ''IL'' \<and>
   requests (analyzeCity offline '' Springfield '' ''IL'' idle_page) =
     [(''Springfield'', ''IL'')]"
proof -
  have blank: "trim ''   '' = []"
    by (simp add: trim_def is_white_space_def)
  have c: "trim '' Springfield '' = ''Springfield''"
    by (simp add: trim_def is_white_space_def)
  have s: "trim ''IL'' = ''IL''"
    by (simp add: trim_def is_white_space_def)
  from blank c s
    analyzeCity_validation [of "''   ''" "''IL''" offline idle_page]
    analyzeCity_validation [of "'' Springfield ''" "''IL''" offline idle_page]
  show ?thesis
    by (simp add: idle_page_def)
qed

text \<open>
  Claim C9. Whenever a request was submitted, the completed \<^verbatim>\<open>analyzeCity\<close> leaves the
  loading block hidden and the button enabled, whatever the outcome of the request;
  and when the call of the service was rejected, or the \<^verbatim>\<open>try\<close> block threw for want
  of a record, the message shown is the network-error message.
\<close>

theorem analyzeCity_clears_loading:
  assumes "trim cityInput \<noteq> []" and "trim stateInput \<noteq> []"
  shows "loading_display (analyzeCity h cityInput stateInput p) = ''none'' \<and>
         analyzeBtn_disabled (analyzeCity h cityInput stateInput p) = False \<and>
         btn_text_display (analyzeCity h cityInput stateInput p) = ''inline'' \<and>
         loading_spinner_display (analyzeCity h cityInput stateInput p) = ''none'' \<and>
         (fetch h (trim cityInput, trim stateInput) = Rejected \<or>
          (\<exists>r. fetch h (trim cityInput, trim stateInput) = Resolved r \<and>
               success r \<and> data r = None) \<longrightarrow>
            error_textContent (analyzeCity h cityInput stateInput p) =
              ''Network error. Please check your connection and try again.'' \<and>
            error_display (analyzeCity h cityInput stateInput p) = ''block'')"
  using assms
  by (auto simp add: analyzeCity_def try_block_def displayResults_def page_defs Let_def
      split: outcome.splits option.splits)

theorem analyzeCity_clears_loading_witness:
  "trim ''Springfield'' \<noteq> [] \<and> trim ''IL'' \<noteq> [] \<and>
   fetch offline (trim ''Springfield'', trim ''IL'') = Rejected \<and>
   loading_display (analyzeCity offline ''Springfield'' ''IL'' idle_page) = ''none'' \<and>
   analyzeBtn_disabled (analyzeCity offline ''Springfield'' ''IL'' idle_page) = False \<and>
   error_textContent (analyzeCity offline ''Springfield'' ''IL'' idle_page) =
     ''Network error. Please check your connection and try again.'' \<and>
   error_display (analyzeCity offline ''Springfield'' ''IL'' idle_page) = ''block'' \<and>
   loading_display
     (analyzeCity (browser_en_US knows_springfield) ''Springfield'' ''IL'' idle_page) =
     ''none'' \<and>
   analyzeBtn_disabled
     (analyzeCity (browser_en_US knows_springfield) ''Springfield'' ''IL'' idle_page) =
     False \<and>
   loading_display
     (analyzeCity (browser_en_US city_not_found) ''Springfield'' ''IL'' idle_page) =
     ''none'' \<and>
   analyzeBtn_disabled
     (analyzeCity (browser_en_US city_not_found) ''Springfield'' ''IL'' idle_page) =
     False"
proof -
  have c: "trim ''Springfield'' \<noteq> []"
    by (simp add: trim_def is_white_space_def)
  have s: "trim ''IL'' \<noteq> []"
    by (simp add: trim_def is_white_space_def)
  have rejected: "fetch offline (trim ''Springfield'', trim ''IL'') = Rejected"
    by (simp add: host_defs)
  from c s rejected
    analyzeCity_clears_loading [OF c s, of offline idle_page]
    analyzeCity_clears_loading [OF c s, of "browser_en_US knows_springfield" idle_page]
    analyzeCity_clears_loading [OF c s, of "browser_en_US city_not_found" idle_page]
  show ?thesis
    by simp
qed

text \<open>
  Claim C10, as the code has it. When the service answers with \<^verbatim>\<open>success: false\<close>, the
  message shown is the service's error text, verbatim, when that text is not empty, and
  the default message when the text is absent or empty; the results block stays hidden
  and none of the output elements is written.
\<close>

theorem analyzeCity_service_failure:
  assumes "trim cityInput \<noteq> []" and "trim stateInput \<noteq> []"
    and "fetch h (trim cityInput, trim stateInput) = Resolved r" and "\<not> success r"
  shows "(\<forall>m. error r = Some m \<and> m \<noteq> [] \<longrightarrow>
            error_textContent (analyzeCity h cityInput stateInput p) = m) \<and>
         (error r = None \<or> error r = Some [] \<longrightarrow>
            error_textContent (analyzeCity h cityInput stateInput p) =
              ''An error occurred while analyzing the city.'') \<and>
         error_display (analyzeCity h cityInput stateInput p) = ''block'' \<and>
         results_display (analyzeCity h cityInput stateInput p) = ''none'' \<and>
         results_show (analyzeCity h cityInput stateInput p) = False \<and>
         cityName (analyzeCity h cityInput stateInput p) = cityName p \<and>
         analysisDate (analyzeCity h cityInput stateInput p) = analysisDate p \<and>
         population_text (analyzeCity h cityInput stateInput p) = population_text p \<and>
         growth_text (analyzeCity h cityInput stateInput p) = growth_text p \<and>
         income_text (analyzeCity h cityInput stateInput p) = income_text p \<and>
         unemployment_text (analyzeCity h cityInput stateInput p) = unemployment_text p \<and>
         insights_items (analyzeCity h cityInput stateInput p) = insights_items p \<and>
         jsonData (analyzeCity h cityInput stateInput p) = jsonData p"
  using assms
  by (auto simp add: analyzeCity_def try_block_def error_or_default_def page_defs Let_def)

theorem analyzeCity_service_failure_witness:
  "trim ''Springfield'' \<noteq> [] \<and> trim ''IL'' \<noteq> [] \<and>
   fetch (browser_en_US city_not_found) (trim ''Springfield'', trim ''IL'') =
     Resolved \<lparr>success = False, data = None, error = Some ''City not found''\<rparr> \<and>
   error_textContent
     (analyzeCity (browser_en_US city_not_found) ''Springfield'' ''IL'' idle_page) =
     ''City not found'' \<and>
   results_display
     (analyzeCity (browser_en_US city_not_found) ''Springfield'' ''IL'' idle_page) =
     ''none''"
proof -
  have c: "trim ''Springfield'' \<noteq> []"
    by (simp add: trim_def is_white_space_def)
  have s: "trim ''IL'' \<noteq> []"
    by (simp add: trim_def is_white_space_def)
  have answer: "fetch (browser_en_US city_not_found) (trim ''Springfield'', trim ''IL'') =
     Resolved \<lparr>success = False, data = None, error = Some ''City not found''\<rparr>"
    by (simp add: browser_en_US_def city_not_found_def)
  have failure: "\<not> success \<lparr>success = False, data = None, error = Some ''City not found''\<rparr>"
    by simp
  from c s answer analyzeCity_service_failure [OF c s answer failure, of idle_page]
  show ?thesis
    by simp
qed

text \<open>
  Claim C10 as stated passes every error text through. The empty text is a text the
  service can send; the message shown for it is the default one.
\<close>

theorem analyzeCity_empty_error_counterexample:
  "fetch (browser_en_US empty_error) (trim ''Springfield'', trim ''IL'') =
     Resolved \<lparr>success = False, data = None, error = Some []\<rparr> \<and>
   error_textContent
     (analyzeCity (browser_en_US empty_error) ''Springfield'' ''IL'' idle_page) =
     ''An error occurred while analyzing the city.'' \<and>
   error_textContent
     (analyzeCity (browser_en_US empty_error) ''Springfield'' ''IL'' idle_page) \<noteq> []"
  by (simp add: analyzeCity_def try_block_def error_or_default_def page_defs Let_def
      browser_en_US_def empty_error_def trim_def is_white_space_def idle_page_def)

text \<open>
  The Springfield scenario from end to end: the results block is shown with the four
  insights, no error is displayed, and the loading block is hidden again.
\<close>

lemma analyzeCity_springfield:
  "insights_items
     (analyzeCity (browser_en_US knows_springfield) ''Springfield'' ''IL'' idle_page) =
     [''Springfield is a mid-size city with 114K residents.'',
      ''Moderate population growth of 3.2% over the past 5 years.'',
      ''Median household income of $65,000 is close to national average.'',
      ''Low unemployment rate of 4.1%.''] \<and>
   results_display
     (analyzeCity (browser_en_US knows_springfield) ''Springfield'' ''IL'' idle_page) =
     ''block'' \<and>
   error_display
     (analyzeCity (browser_en_US knows_springfield) ''Springfield'' ''IL'' idle_page) =
     ''none'' \<and>
   loading_display
     (analyzeCity (browser_en_US knows_springfield) ''Springfield'' ''IL'' idle_page) =
     ''none'' \<and>
   requests
     (analyzeCity (browser_en_US knows_springfield) ''Springfield'' ''IL'' idle_page) =
     [(''Springfield'', ''IL'')]"
  by (simp add: analyzeCity_def try_block_def displayResults_def page_defs
      browser_en_US_def knows_springfield_def trim_def is_white_space_def idle_page_def
      springfield_def insight_defs print_defs)

end
